theory Spec2Isabelle
  imports Main "HOL-Library.AList"
begin

section \<open>Configuration and time (main.py, lines 19-21 and 31)\<close>

text \<open>
  \<open>datetime\<close> values are counted in microseconds since the epoch, the resolution of
  Python's \<open>datetime\<close> and \<open>timedelta\<close>. The clock \<open>datetime.utcnow()\<close> is an
  argument \<open>now\<close> of every function that reads it. \<open>SECRET_KEY\<close> comes from the
  process environment, so it is a field of the \<open>runtime\<close> the functions are given.
\<close>

type_synonym datetime = int
type_synonym timedelta = int

definition timedelta_minutes :: "int \<Rightarrow> timedelta" where
  "timedelta_minutes n = n * 60000000"

definition ALGORITHM :: string where
  "ALGORITHM = ''HS256''"

definition ACCESS_TOKEN_EXPIRE_MINUTES :: int where
  "ACCESS_TOKEN_EXPIRE_MINUTES = 30"

definition UPLOAD_DIR :: string where
  "UPLOAD_DIR = ''uploads''"

section \<open>Tables (models.py)\<close>

record ContactMessage =
  cm_id :: int
  cm_name :: string
  cm_email :: string
  cm_message :: string
  cm_timestamp :: datetime

record Project =
  p_id :: int
  p_title :: string
  p_description :: string
  p_image_url :: string

record Admin =
  admin_id :: int
  admin_username :: string
  admin_password_hash :: string

text \<open>
  The persistent state: the three tables, each as the list of its rows in rowid order,
  and the upload directory as an association list from path to file content.
\<close>

record state =
  contact_messages :: "ContactMessage list"
  projects :: "Project list"
  admins :: "Admin list"
  uploads :: "(string \<times> string) list"

text \<open>
  The id of an inserted row. The columns are \<open>Integer, primary_key=True\<close> on SQLite, an
  alias of the rowid: one more than the largest id in the table, 1 in an empty table.
\<close>

definition next_id :: "int list \<Rightarrow> int" where
  "next_id ids = (if ids = [] then 1 else Max (set ids) + 1)"

section \<open>Request bodies and responses (main.py)\<close>

record ContactForm =
  form_name :: string
  form_email :: string
  form_message :: string

record ProjectSchema =
  schema_title :: string
  schema_description :: string
  schema_image_url :: string

text \<open>
  Modelled from the spec: the request type \<open>AdminCreate\<close> of \<open>register_admin\<close> is
  used at main.py line 123 and declared nowhere in the source. The interface table of the
  spec gives its body as \<open>{username, password}\<close>.
\<close>

record AdminCreate =
  create_username :: string
  create_password :: string

text \<open>The two fields of \<open>OAuth2PasswordRequestForm\<close> that \<open>login_admin\<close> reads.\<close>

record OAuth2PasswordRequestForm =
  login_username :: string
  login_password :: string

text \<open>\<open>UploadFile\<close>: \<open>filename\<close> and \<open>content_type\<close> are optional strings.\<close>

record UploadFile =
  filename :: "string option"
  content_type :: "string option"
  content :: string

text \<open>
  An exception that leaves a handler: an \<open>HTTPException\<close> raised by the source, which
  the framework answers with its status and detail, or an exception of any other class,
  named by its class, which nothing in the source catches (the framework answers it with
  status 500). A function that raises returns \<open>Inl\<close> of the exception.
\<close>

datatype py_exception = HTTPException (status_code: nat) (detail: string) | Unhandled string

record TokenResponse =
  access_token :: string
  token_type :: string

section \<open>The environment: libraries, file system, integer columns\<close>

text \<open>
  \<open>pwd_context\<close> (passlib, bcrypt) is taken as a pair of functions: \<open>pwd_hash\<close> for
  \<open>pwd_context.hash\<close> and \<open>pwd_verify\<close> for \<open>pwd_context.verify\<close>.
\<close>

record CryptContext =
  pwd_hash :: "string \<Rightarrow> string"
  pwd_verify :: "string \<Rightarrow> string \<Rightarrow> bool"

text \<open>
  A claims dictionary handed to \<open>jwt.encode\<close> is an association list (a Python dict keeps
  insertion order, and \<open>dict.update\<close> on a present key keeps its place, as
  \<open>AList.update\<close> does). The source puts strings and one datetime into it.
\<close>

datatype claim = CStr string | CTime datetime

type_synonym claims = "(string \<times> claim) list"

text \<open>
  The library \<open>jose.jwt\<close> is not part of the repository and nothing is assumed of it:
  \<open>jwt.encode\<close> and \<open>jwt.decode\<close> are two functions the runtime is given, and every
  theorem holds for all of them. A token is a string. \<open>jwt_encode\<close> returns the token or
  raises (\<open>Inl\<close> of the exception's class). \<open>jwt_decode\<close> has three outcomes, the three
  the source tells apart: it returns a payload, of which the source reads
  \<open>payload.get("sub")\<close> only (\<open>None\<close> or a string: the library refuses a \<open>sub\<close> that is
  not a string); it raises \<open>JWTError\<close> or one of its subclasses; or it raises an exception
  of another class.
\<close>

type_synonym token = string

datatype decode_outcome = Decoded "string option" | RaisesJWTError | RaisesOther string

record jwt_library =
  jwt_encode :: "claims \<Rightarrow> string \<Rightarrow> string \<Rightarrow> string + token"
  jwt_decode :: "token \<Rightarrow> string \<Rightarrow> string list \<Rightarrow> datetime \<Rightarrow> decode_outcome"


text \<open>
  The runtime of the service: the configured key, the password context, the token
  library, the calendar formatting \<open>strftime("%Y-%m-%d %H:%M:%S")\<close>, and the file
  system's answer to \<open>open(path, "wb")\<close>: \<open>None\<close> when the file is opened, the class of
  the exception when \<open>open\<close> raises (an empty file name, a missing directory).
\<close>

record runtime =
  SECRET_KEY :: string
  pwd_context :: CryptContext
  jwt :: jwt_library
  strftime :: "datetime \<Rightarrow> string"
  open_wb :: "string \<Rightarrow> string option"

text \<open>
  An id bound to a query must fit SQLite's 64-bit INTEGER: the driver raises
  \<open>OverflowError\<close> on a Python int outside that range.
\<close>

definition in_int64 :: "int \<Rightarrow> bool" where
  "in_int64 n = (- 9223372036854775808 \<le> n \<and> n \<le> 9223372036854775807)"

text \<open>Python truthiness of the result of \<open>payload.get("sub")\<close>.\<close>

fun truthy :: "string option \<Rightarrow> bool" where
  "truthy None = False"
| "truthy (Some s) = (s \<noteq> [])"

text \<open>\<open>str.strip("/")\<close> and the formatting of an optional string in an f-string.\<close>

definition strip_slash :: "string \<Rightarrow> string" where
  "strip_slash s = rev (dropWhile (\<lambda>c. c = CHR ''/'') (rev (dropWhile (\<lambda>c. c = CHR ''/'') s)))"

fun py_str :: "string option \<Rightarrow> string" where
  "py_str None = ''None''"
| "py_str (Some s) = s"

section \<open>Authentication helpers (main.py, lines 61-85)\<close>

definition authenticate_admin :: "CryptContext \<Rightarrow> string \<Rightarrow> string \<Rightarrow> state \<Rightarrow> Admin option" where
  "authenticate_admin pwd username password db =
     (case List.find (\<lambda>a. admin_username a = username) (admins db) of
        None \<Rightarrow> None
      | Some admin \<Rightarrow>
          if \<not> pwd_verify pwd password (admin_password_hash admin) then None
          else Some admin)"

text \<open>
  Lines 68-70 of \<open>create_access_token\<close>: the dictionary \<open>to_encode\<close> that is handed to
  \<open>jwt.encode\<close>. \<open>expires_delta or timedelta(minutes=15)\<close>: the fallback is taken when no
  duration is given and when the duration is zero (a zero \<open>timedelta\<close> is falsy).
\<close>

definition token_claims :: "datetime \<Rightarrow> claims \<Rightarrow> timedelta option \<Rightarrow> claims" where
  "token_claims now data expires_delta =
     (let to_encode = data;
          expire = now + (case expires_delta of
                            None \<Rightarrow> timedelta_minutes 15
                          | Some d \<Rightarrow> if d = 0 then timedelta_minutes 15 else d)
      in AList.update ''exp'' (CTime expire) to_encode)"

definition create_access_token :: "runtime \<Rightarrow> datetime \<Rightarrow> claims \<Rightarrow> timedelta option \<Rightarrow> string + token" where
  "create_access_token rt now data expires_delta =
     jwt_encode (jwt rt) (token_claims now data expires_delta) (SECRET_KEY rt) ALGORITHM"

text \<open>
  \<open>get_current_admin\<close>: \<open>except JWTError\<close> catches the library's \<open>JWTError\<close> and its
  subclasses and nothing else; an exception of another class leaves the function as it
  is.
\<close>

definition get_current_admin :: "runtime \<Rightarrow> datetime \<Rightarrow> token \<Rightarrow> state \<Rightarrow> py_exception + Admin" where
  "get_current_admin rt now tok db =
     (case jwt_decode (jwt rt) tok (SECRET_KEY rt) [ALGORITHM] now of
        RaisesJWTError \<Rightarrow> Inl (HTTPException 401 ''Invalid authentication'')
      | RaisesOther exc \<Rightarrow> Inl (Unhandled exc)
      | Decoded username \<Rightarrow>
          if \<not> truthy username then Inl (HTTPException 401 ''Invalid authentication'')
          else (case List.find (\<lambda>a. Some (admin_username a) = username) (admins db) of
                  None \<Rightarrow> Inl (HTTPException 401 ''Invalid authentication'')
                | Some admin \<Rightarrow> Inr admin))"

section \<open>Contact messages (main.py, lines 94-119)\<close>

definition save_message :: "datetime \<Rightarrow> ContactForm \<Rightarrow> state \<Rightarrow> state \<times> string" where
  "save_message now contact db =
     (let new_message = \<lparr>cm_id = next_id (map cm_id (contact_messages db)),
                         cm_name = form_name contact,
                         cm_email = form_email contact,
                         cm_message = form_message contact,
                         cm_timestamp = now\<rparr>
      in (db\<lparr>contact_messages := contact_messages db @ [new_message]\<rparr>, ''Message received''))"

record MessageOut =
  out_id :: int
  out_name :: string
  out_email :: string
  out_message :: string
  out_timestamp :: string

definition get_messages :: "(datetime \<Rightarrow> string) \<Rightarrow> state \<Rightarrow> Admin \<Rightarrow> MessageOut list" where
  "get_messages fmt db admin =
     map (\<lambda>msg. \<lparr>out_id = cm_id msg, out_name = cm_name msg, out_email = cm_email msg,
                  out_message = cm_message msg, out_timestamp = fmt (cm_timestamp msg)\<rparr>)
         (contact_messages db)"

section \<open>Admin registration and login (main.py, lines 122-141)\<close>

definition register_admin :: "CryptContext \<Rightarrow> AdminCreate \<Rightarrow> state \<Rightarrow> state \<times> (py_exception + string)" where
  "register_admin pwd admin_data db =
     (if List.find (\<lambda>a. admin_username a = create_username admin_data) (admins db) \<noteq> None
      then (db, Inl (HTTPException 400 ''Admin already exists''))
      else
        (let hashed_password = pwd_hash pwd (create_password admin_data);
             new_admin = \<lparr>admin_id = next_id (map admin_id (admins db)),
                          admin_username = create_username admin_data,
                          admin_password_hash = hashed_password\<rparr>
         in (db\<lparr>admins := admins db @ [new_admin]\<rparr>, Inr ''Admin created successfully'')))"

definition login_admin :: "runtime \<Rightarrow> datetime \<Rightarrow> OAuth2PasswordRequestForm \<Rightarrow> state \<Rightarrow> py_exception + TokenResponse" where
  "login_admin rt now form_data db =
     (case authenticate_admin (pwd_context rt) (login_username form_data) (login_password form_data) db of
        None \<Rightarrow> Inl (HTTPException 401 ''Invalid credentials'')
      | Some admin \<Rightarrow>
          (case create_access_token rt now [(''sub'', CStr (admin_username admin))]
                  (Some (timedelta_minutes ACCESS_TOKEN_EXPIRE_MINUTES)) of
             Inl exc \<Rightarrow> Inl (Unhandled exc)
           | Inr tok \<Rightarrow> Inr \<lparr>access_token = tok, token_type = ''bearer''\<rparr>))"

section \<open>Projects (main.py, lines 149-214)\<close>

definition allowed_types :: "string set" where
  "allowed_types = {''image/png'', ''image/jpeg'', ''image/jpg''}"

text \<open>
  \<open>create_project\<close>. \<open>None not in allowed_types\<close> holds: an upload without a content type
  is rejected. The file is opened under the name the client sent; when \<open>open\<close> raises,
  nothing has been written and the exception leaves the handler. The upload directory is
  a store of its own here, keyed by the path as the source builds it; what a write under
  a name that leads out of the directory does to other files is not part of the state.
  The row gets the
  table's next id and is inserted after the file was written. Past the largest 64-bit
  integer there is no next id: SQLite then looks for an unused id at random, which this
  model does not follow (the service itself cannot fill a table that far); here the
  insert fails.
\<close>

definition create_project :: "runtime \<Rightarrow> string \<Rightarrow> string \<Rightarrow> UploadFile \<Rightarrow> state \<Rightarrow> string \<Rightarrow> state \<times> (py_exception + Project)" where
  "create_project rt title description image_file db request_base_url =
     (if (case content_type image_file of None \<Rightarrow> True | Some ct \<Rightarrow> ct \<notin> allowed_types)
      then (db, Inl (HTTPException 400 ''Invalid image format''))
      else
        (let file_location = UPLOAD_DIR @ ''/'' @ py_str (filename image_file) in
         case open_wb rt file_location of
           Some exc \<Rightarrow> (db, Inl (Unhandled exc))
         | None \<Rightarrow>
             (let db1 = db\<lparr>uploads := AList.update file_location (content image_file) (uploads db)\<rparr>;
                  base_url = strip_slash request_base_url;
                  image_url = base_url @ ''/uploads/'' @ py_str (filename image_file);
                  new_project = \<lparr>p_id = next_id (map p_id (projects db1)),
                                 p_title = title,
                                 p_description = description,
                                 p_image_url = image_url\<rparr>;
                  db2 = db1\<lparr>projects := projects db1 @ [new_project]\<rparr>
              in if \<not> in_int64 (p_id new_project) then (db1, Inl (Unhandled ''OperationalError''))
                 else (db2, Inr new_project))))"

definition get_projects :: "state \<Rightarrow> Project list" where
  "get_projects db = projects db"

text \<open>
  The three lookups by id bind \<open>project_id\<close>, a Python int of any size, to the query:
  outside the 64-bit range the driver raises \<open>OverflowError\<close> before any row is read.
\<close>

definition get_project :: "int \<Rightarrow> state \<Rightarrow> py_exception + Project" where
  "get_project project_id db =
     (if \<not> in_int64 project_id then Inl (Unhandled ''OverflowError'')
      else (case List.find (\<lambda>p. p_id p = project_id) (projects db) of
              None \<Rightarrow> Inl (HTTPException 404 ''Project not found'')
            | Some project \<Rightarrow> Inr project))"

text \<open>
  The commit of \<open>update_project\<close> is \<open>UPDATE projects SET ... WHERE id = project_id\<close>, and
  the commit of \<open>delete_project\<close> is \<open>DELETE FROM projects WHERE id = project_id\<close>.
\<close>

definition update_project :: "int \<Rightarrow> ProjectSchema \<Rightarrow> state \<Rightarrow> Admin \<Rightarrow> state \<times> (py_exception + Project)" where
  "update_project project_id project db admin =
     (if \<not> in_int64 project_id then (db, Inl (Unhandled ''OverflowError''))
      else (case List.find (\<lambda>p. p_id p = project_id) (projects db) of
        None \<Rightarrow> (db, Inl (HTTPException 404 ''Project not found''))
      | Some db_project \<Rightarrow>
          (let db_project = db_project\<lparr>p_title := schema_title project,
                                       p_description := schema_description project,
                                       p_image_url := schema_image_url project\<rparr>;
               db1 = db\<lparr>projects := map (\<lambda>p. if p_id p = project_id then db_project else p) (projects db)\<rparr>
           in (db1, Inr db_project))))"

definition delete_project :: "int \<Rightarrow> state \<Rightarrow> Admin \<Rightarrow> state \<times> (py_exception + string)" where
  "delete_project project_id db admin =
     (if \<not> in_int64 project_id then (db, Inl (Unhandled ''OverflowError''))
      else (case List.find (\<lambda>p. p_id p = project_id) (projects db) of
        None \<Rightarrow> (db, Inl (HTTPException 404 ''Project not found''))
      | Some db_project \<Rightarrow>
          (db\<lparr>projects := filter (\<lambda>p. p_id p \<noteq> project_id) (projects db)\<rparr>,
           Inr ''Project deleted successfully'')))"

section \<open>The routes\<close>

text \<open>
  One request of the application: the ten routes of main.py. A route declared with
  \<open>Depends(get_current_admin)\<close> resolves the bearer token first and runs its handler only
  with the resolved \<open>Admin\<close>; the failure of the dependency is the response.
\<close>

datatype request =
    ReadRoot
  | SaveMessage ContactForm
  | GetMessages token
  | RegisterAdmin AdminCreate
  | LoginAdmin OAuth2PasswordRequestForm
  | CreateProject string string UploadFile string
  | GetProjects
  | GetProject int
  | UpdateProject token int ProjectSchema
  | DeleteProject token int

datatype response =
    Message string
  | MessageList "MessageOut list"
  | Token TokenResponse
  | ProjectOut Project
  | ProjectList "Project list"

definition read_root :: string where
  "read_root = ''FastAPI on cPanel is working!''"

fun lift_result :: "('a \<Rightarrow> response) \<Rightarrow> state \<times> (py_exception + 'a) \<Rightarrow> state \<times> (py_exception + response)" where
  "lift_result f (db, Inl e) = (db, Inl e)"
| "lift_result f (db, Inr x) = (db, Inr (f x))"

fun handle :: "runtime \<Rightarrow> datetime \<Rightarrow> request \<Rightarrow> state \<Rightarrow> state \<times> (py_exception + response)" where
  "handle rt now ReadRoot db = (db, Inr (Message read_root))"
| "handle rt now (SaveMessage contact) db =
     (case save_message now contact db of (db1, m) \<Rightarrow> (db1, Inr (Message m)))"
| "handle rt now (GetMessages tok) db =
     (case get_current_admin rt now tok db of
        Inl e \<Rightarrow> (db, Inl e)
      | Inr admin \<Rightarrow> (db, Inr (MessageList (get_messages (strftime rt) db admin))))"
| "handle rt now (RegisterAdmin admin_data) db =
     lift_result Message (register_admin (pwd_context rt) admin_data db)"
| "handle rt now (LoginAdmin form_data) db =
     lift_result Token (db, login_admin rt now form_data db)"
| "handle rt now (CreateProject title description image_file request_base_url) db =
     lift_result ProjectOut (create_project rt title description image_file db request_base_url)"
| "handle rt now GetProjects db = (db, Inr (ProjectList (get_projects db)))"
| "handle rt now (GetProject project_id) db =
     lift_result ProjectOut (db, get_project project_id db)"
| "handle rt now (UpdateProject tok project_id project) db =
     (case get_current_admin rt now tok db of
        Inl e \<Rightarrow> (db, Inl e)
      | Inr admin \<Rightarrow> lift_result ProjectOut (update_project project_id project db admin))"
| "handle rt now (DeleteProject tok project_id) db =
     (case get_current_admin rt now tok db of
        Inl e \<Rightarrow> (db, Inl e)
      | Inr admin \<Rightarrow> lift_result Message (delete_project project_id db admin))"

section \<open>Example data\<close>

definition example_admin :: Admin where
  "example_admin = \<lparr>admin_id = 1, admin_username = ''admin'', admin_password_hash = ''hash:secret''\<rparr>"

definition example_db :: state where
  "example_db = \<lparr>contact_messages = [\<lparr>cm_id = 1, cm_name = ''Ann'', cm_email = ''ann@example.org'',
                                      cm_message = ''hello'', cm_timestamp = 1000000\<rparr>],
                  projects = [\<lparr>p_id = 1, p_title = ''One'', p_description = ''first'',
                               p_image_url = ''http://host/uploads/one.png''\<rparr>,
                              \<lparr>p_id = 2, p_title = ''Two'', p_description = ''second'',
                               p_image_url = ''http://host/uploads/two.png''\<rparr>],
                  admins = [example_admin],
                  uploads = [(''uploads/one.png'', ''PNG1''), (''uploads/two.png'', ''PNG2'')]\<rparr>"

definition example_pwd_context :: CryptContext where
  "example_pwd_context = \<lparr>pwd_hash = (\<lambda>p. ''hash:'' @ p), pwd_verify = (\<lambda>p h. h = ''hash:'' @ p)\<rparr>"

text \<open>
  An example library: it issues the token "token:u" for the subject u, and decodes five
  tokens: the admin's, one for a subject that is no admin, one with no subject, an
  expired one, and one whose \<open>exp\<close> is null, on which the library raises \<open>TypeError\<close>.
  Everything else is refused with \<open>JWTError\<close>.
\<close>

definition example_jwt :: jwt_library where
  "example_jwt =
     \<lparr>jwt_encode = (\<lambda>cl key alg. case map_of cl ''sub'' of
                                     Some (CStr u) \<Rightarrow> Inr (''token:'' @ u)
                                   | _ \<Rightarrow> Inr ''token''),
      jwt_decode = (\<lambda>tok key algs now.
                      if tok = ''token:admin'' then Decoded (Some ''admin'')
                      else if tok = ''token:eve'' then Decoded (Some ''eve'')
                      else if tok = ''token'' then Decoded None
                      else if tok = ''expired'' then RaisesJWTError
                      else if tok = ''exp-null'' then RaisesOther ''TypeError''
                      else RaisesJWTError)\<rparr>"

text \<open>An example file system: a file opens unless its name is empty.\<close>

definition example_rt :: runtime where
  "example_rt = \<lparr>SECRET_KEY = ''k'', pwd_context = example_pwd_context, jwt = example_jwt,
                  strftime = (\<lambda>t. ''1970-01-01 00:00:01''),
                  open_wb = (\<lambda>path. if path = ''uploads/'' then Some ''IsADirectoryError'' else None)\<rparr>"

definition example_body :: ProjectSchema where
  "example_body = \<lparr>schema_title = ''New'', schema_description = ''changed'',
                    schema_image_url = ''http://host/uploads/new.png''\<rparr>"

section \<open>Token resolution\<close>

text \<open>
  Claim C1. What \<open>get_current_admin\<close> does with each outcome of the token library.
  When the library raises an exception that is not a \<open>JWTError\<close> (on a signed token whose
  \<open>exp\<close> is null the library raises \<open>TypeError\<close>), \<open>except JWTError\<close> does not catch
  it and the exception leaves \<open>get_current_admin\<close>: the answer is not the 401 of the other
  failures. When the library raises \<open>JWTError\<close> or a subclass (a signature that does not
  verify, an expired token), when the payload has no subject or an empty one, and when the
  subject is the username of no Admin row, the failure is one and the same: status 401,
  detail "Invalid authentication"; and every \<open>HTTPException\<close> of \<open>get_current_admin\<close> is
  that one.
\<close>

theorem get_current_admin_outcomes:
  "(jwt_decode (jwt rt) tok (SECRET_KEY rt) [ALGORITHM] now = RaisesOther exc \<longrightarrow>
      get_current_admin rt now tok db = Inl (Unhandled exc))
   \<and> (jwt_decode (jwt rt) tok (SECRET_KEY rt) [ALGORITHM] now = RaisesJWTError \<longrightarrow>
      get_current_admin rt now tok db = Inl (HTTPException 401 ''Invalid authentication''))
   \<and> (jwt_decode (jwt rt) tok (SECRET_KEY rt) [ALGORITHM] now = Decoded username
        \<and> \<not> truthy username \<longrightarrow>
      get_current_admin rt now tok db = Inl (HTTPException 401 ''Invalid authentication''))
   \<and> (jwt_decode (jwt rt) tok (SECRET_KEY rt) [ALGORITHM] now = Decoded username
        \<and> (\<forall>a \<in> set (admins db). Some (admin_username a) \<noteq> username) \<longrightarrow>
      get_current_admin rt now tok db = Inl (HTTPException 401 ''Invalid authentication''))
   \<and> (get_current_admin rt now tok db = Inl (HTTPException s d) \<longrightarrow>
      s = 401 \<and> d = ''Invalid authentication'')"
proof (intro conjI impI)
  assume "jwt_decode (jwt rt) tok (SECRET_KEY rt) [ALGORITHM] now = RaisesOther exc"
  then show "get_current_admin rt now tok db = Inl (Unhandled exc)"
    by (simp add: get_current_admin_def)
next
  assume "jwt_decode (jwt rt) tok (SECRET_KEY rt) [ALGORITHM] now = RaisesJWTError"
  then show "get_current_admin rt now tok db = Inl (HTTPException 401 ''Invalid authentication'')"
    by (simp add: get_current_admin_def)
next
  assume "jwt_decode (jwt rt) tok (SECRET_KEY rt) [ALGORITHM] now = Decoded username
        \<and> \<not> truthy username"
  then show "get_current_admin rt now tok db = Inl (HTTPException 401 ''Invalid authentication'')"
    by (simp add: get_current_admin_def)
next
  assume h: "jwt_decode (jwt rt) tok (SECRET_KEY rt) [ALGORITHM] now = Decoded username
        \<and> (\<forall>a \<in> set (admins db). Some (admin_username a) \<noteq> username)"
  then have "List.find (\<lambda>a. Some (admin_username a) = username) (admins db) = None"
    by (simp add: find_None_iff)
  with h show "get_current_admin rt now tok db = Inl (HTTPException 401 ''Invalid authentication'')"
    by (simp add: get_current_admin_def)
next
  assume "get_current_admin rt now tok db = Inl (HTTPException s d)"
  then show "s = 401" and "d = ''Invalid authentication''"
    by (auto simp: get_current_admin_def split: decode_outcome.splits if_splits option.splits)
qed

theorem get_current_admin_outcomes_witness:
  "jwt_decode (jwt example_rt) ''exp-null'' (SECRET_KEY example_rt) [ALGORITHM] 10000000
     = RaisesOther ''TypeError''
   \<and> get_current_admin example_rt 10000000 ''exp-null'' example_db = Inl (Unhandled ''TypeError'')
   \<and> get_current_admin example_rt 10000000 ''exp-null'' example_db
       \<noteq> Inl (HTTPException 401 ''Invalid authentication'')
   \<and> jwt_decode (jwt example_rt) ''expired'' (SECRET_KEY example_rt) [ALGORITHM] 10000000
     = RaisesJWTError
   \<and> get_current_admin example_rt 10000000 ''expired'' example_db
     = Inl (HTTPException 401 ''Invalid authentication'')
   \<and> jwt_decode (jwt example_rt) ''token'' (SECRET_KEY example_rt) [ALGORITHM] 10000000
     = Decoded None
   \<and> get_current_admin example_rt 10000000 ''token'' example_db
     = Inl (HTTPException 401 ''Invalid authentication'')
   \<and> jwt_decode (jwt example_rt) ''token:eve'' (SECRET_KEY example_rt) [ALGORITHM] 10000000
     = Decoded (Some ''eve'')
   \<and> admins example_db = [example_admin] \<and> admin_username example_admin \<noteq> ''eve''
   \<and> get_current_admin example_rt 10000000 ''token:eve'' example_db
     = Inl (HTTPException 401 ''Invalid authentication'')
   \<and> get_current_admin example_rt 10000000 ''token:admin'' example_db = Inr example_admin"
proof -
  have d1: "jwt_decode (jwt example_rt) ''exp-null'' (SECRET_KEY example_rt) [ALGORITHM] 10000000
     = RaisesOther ''TypeError''"
    by (simp add: example_rt_def example_jwt_def)
  have d2: "jwt_decode (jwt example_rt) ''expired'' (SECRET_KEY example_rt) [ALGORITHM] 10000000
     = RaisesJWTError"
    by (simp add: example_rt_def example_jwt_def)
  have d3: "jwt_decode (jwt example_rt) ''token'' (SECRET_KEY example_rt) [ALGORITHM] 10000000
     = Decoded None"
    by (simp add: example_rt_def example_jwt_def)
  have d4: "jwt_decode (jwt example_rt) ''token:eve'' (SECRET_KEY example_rt) [ALGORITHM] 10000000
     = Decoded (Some ''eve'')"
    by (simp add: example_rt_def example_jwt_def)
  have a: "admins example_db = [example_admin]" and n: "admin_username example_admin \<noteq> ''eve''"
    by (simp_all add: example_db_def example_admin_def)
  from a n have u: "\<forall>a \<in> set (admins example_db). Some (admin_username a) \<noteq> Some ''eve''"
    by simp
  from d1 get_current_admin_outcomes [of example_rt "''exp-null''" 10000000 "''TypeError''" example_db]
  have r1: "get_current_admin example_rt 10000000 ''exp-null'' example_db = Inl (Unhandled ''TypeError'')"
    by blast
  from d2 get_current_admin_outcomes [of example_rt "''expired''" 10000000 "''TypeError''" example_db]
  have r2: "get_current_admin example_rt 10000000 ''expired'' example_db
     = Inl (HTTPException 401 ''Invalid authentication'')"
    by blast
  have t3: "\<not> truthy None" by simp
  from d3 t3 get_current_admin_outcomes [of example_rt "''token''" 10000000 "''TypeError''" example_db None]
  have r3: "get_current_admin example_rt 10000000 ''token'' example_db
     = Inl (HTTPException 401 ''Invalid authentication'')"
    by blast
  from d4 u get_current_admin_outcomes [of example_rt "''token:eve''" 10000000 "''TypeError''" example_db
            "Some ''eve''"]
  have r4: "get_current_admin example_rt 10000000 ''token:eve'' example_db
     = Inl (HTTPException 401 ''Invalid authentication'')"
    by blast
  have r5: "get_current_admin example_rt 10000000 ''token:admin'' example_db = Inr example_admin"
    by (simp add: get_current_admin_def example_rt_def example_jwt_def example_db_def example_admin_def)
  from r1 have r1': "get_current_admin example_rt 10000000 ''exp-null'' example_db
       \<noteq> Inl (HTTPException 401 ''Invalid authentication'')"
    by simp
  from d1 d2 d3 d4 a n r1 r1' r2 r3 r4 r5 show ?thesis by blast
qed

section \<open>Creating a project: the content-type gate\<close>

lemma create_project_reject:
  "(case content_type image_file of None \<Rightarrow> True | Some ct \<Rightarrow> ct \<notin> allowed_types) \<Longrightarrow>
   create_project rt title description image_file db request_base_url
     = (db, Inl (HTTPException 400 ''Invalid image format''))"
  by (simp add: create_project_def)

lemma create_project_accept:
  "\<not> (case content_type image_file of None \<Rightarrow> True | Some ct \<Rightarrow> ct \<notin> allowed_types) \<Longrightarrow>
   (\<exists>db2 p. create_project rt title description image_file db request_base_url = (db2, Inr p))
   \<or> (\<exists>db1 exc. create_project rt title description image_file db request_base_url
                    = (db1, Inl (Unhandled exc)))"
  by (simp add: create_project_def Let_def split: option.splits)

lemma create_project_open_fails:
  "\<not> (case content_type image_file of None \<Rightarrow> True | Some ct \<Rightarrow> ct \<notin> allowed_types) \<Longrightarrow>
   open_wb rt (UPLOAD_DIR @ ''/'' @ py_str (filename image_file)) = Some exc \<Longrightarrow>
   create_project rt title description image_file db request_base_url = (db, Inl (Unhandled exc))"
  by (simp add: create_project_def Let_def)

lemma allowed_types_cases:
  "(case ct of None \<Rightarrow> True | Some c \<Rightarrow> c \<notin> allowed_types)
     = (ct \<notin> {Some ''image/png'', Some ''image/jpeg'', Some ''image/jpg''})"
  by (cases ct) (auto simp: allowed_types_def)

text \<open>
  Claim C2, as the source has it. \<open>create_project\<close> rejects an upload with status 400,
  detail "Invalid image format", and the state unchanged, exactly when its content type
  is none of the three members of \<open>allowed_types\<close>, "image/png", "image/jpeg" and
  "image/jpg" (an upload with no content type among them). An upload with one of the three
  passes the check: whatever follows, it is not answered with an \<open>HTTPException\<close>.
\<close>

theorem create_project_content_types:
  "(content_type image_file \<notin> {Some ''image/png'', Some ''image/jpeg'', Some ''image/jpg''} \<longrightarrow>
      create_project rt title description image_file db request_base_url
        = (db, Inl (HTTPException 400 ''Invalid image format'')))
   \<and> (content_type image_file \<in> {Some ''image/png'', Some ''image/jpeg'', Some ''image/jpg''} \<longrightarrow>
      snd (create_project rt title description image_file db request_base_url)
        \<noteq> Inl (HTTPException s d))"
proof (intro conjI impI)
  assume "content_type image_file \<notin> {Some ''image/png'', Some ''image/jpeg'', Some ''image/jpg''}"
  then have "case content_type image_file of None \<Rightarrow> True | Some ct \<Rightarrow> ct \<notin> allowed_types"
    by (simp add: allowed_types_cases)
  then show "create_project rt title description image_file db request_base_url
        = (db, Inl (HTTPException 400 ''Invalid image format''))"
    by (rule create_project_reject)
next
  assume "content_type image_file \<in> {Some ''image/png'', Some ''image/jpeg'', Some ''image/jpg''}"
  then have "\<not> (case content_type image_file of None \<Rightarrow> True | Some ct \<Rightarrow> ct \<notin> allowed_types)"
    by (simp add: allowed_types_cases)
  from create_project_accept [OF this, of rt title description db request_base_url]
  show "snd (create_project rt title description image_file db request_base_url)
        \<noteq> Inl (HTTPException s d)"
    by auto
qed

theorem create_project_content_types_witness:
  "content_type \<lparr>filename = Some ''a.gif'', content_type = Some ''image/gif'', content = ''x''\<rparr>
       \<notin> {Some ''image/png'', Some ''image/jpeg'', Some ''image/jpg''}
   \<and> create_project example_rt ''T'' ''D''
          \<lparr>filename = Some ''a.gif'', content_type = Some ''image/gif'', content = ''x''\<rparr>
          example_db ''http://host/''
       = (example_db, Inl (HTTPException 400 ''Invalid image format''))
   \<and> content_type \<lparr>filename = Some '''', content_type = Some ''image/png'', content = ''x''\<rparr>
       \<in> {Some ''image/png'', Some ''image/jpeg'', Some ''image/jpg''}
   \<and> snd (create_project example_rt ''T'' ''D''
          \<lparr>filename = Some '''', content_type = Some ''image/png'', content = ''x''\<rparr>
          example_db ''http://host/'')
       \<noteq> Inl (HTTPException 400 ''Invalid image format'')
   \<and> snd (create_project example_rt ''T'' ''D''
          \<lparr>filename = Some '''', content_type = Some ''image/png'', content = ''x''\<rparr>
          example_db ''http://host/'')
       = Inl (Unhandled ''IsADirectoryError'')"
proof -
  let ?gif = "\<lparr>filename = Some ''a.gif'', content_type = Some ''image/gif'', content = ''x''\<rparr>"
  let ?png = "\<lparr>filename = Some '''', content_type = Some ''image/png'', content = ''x''\<rparr>"
  have h1: "content_type ?gif \<notin> {Some ''image/png'', Some ''image/jpeg'', Some ''image/jpg''}"
    by simp
  have h2: "content_type ?png \<in> {Some ''image/png'', Some ''image/jpeg'', Some ''image/jpg''}"
    by simp
  from h1 create_project_content_types [of ?gif example_rt "''T''" "''D''" example_db "''http://host/''"]
  have r1: "create_project example_rt ''T'' ''D'' ?gif example_db ''http://host/''
       = (example_db, Inl (HTTPException 400 ''Invalid image format''))"
    by blast
  from h2 create_project_content_types [of ?png example_rt "''T''" "''D''" example_db "''http://host/''"
          400 "''Invalid image format''"]
  have r2: "snd (create_project example_rt ''T'' ''D'' ?png example_db ''http://host/'')
       \<noteq> Inl (HTTPException 400 ''Invalid image format'')"
    by blast
  have r3: "snd (create_project example_rt ''T'' ''D'' ?png example_db ''http://host/'')
       = Inl (Unhandled ''IsADirectoryError'')"
    by (simp add: create_project_def allowed_types_def Let_def UPLOAD_DIR_def example_rt_def)
  from h1 h2 r1 r2 r3 show ?thesis by blast
qed

text \<open>
  Claim C2 as stated fails: the content type "image/jpg" is neither "image/png" nor
  "image/jpeg", and the upload is accepted.
\<close>

theorem create_project_jpg_counterexample:
  "Some ''image/jpg'' \<notin> {Some ''image/png'', Some ''image/jpeg''}
   \<and> snd (create_project example_rt ''T'' ''D''
          \<lparr>filename = Some ''a.jpg'', content_type = Some ''image/jpg'', content = ''x''\<rparr>
          example_db ''http://host/'')
       = Inr \<lparr>p_id = 3, p_title = ''T'', p_description = ''D'', p_image_url = ''http://host/uploads/a.jpg''\<rparr>"
  by (simp add: create_project_def allowed_types_def Let_def example_db_def next_id_def UPLOAD_DIR_def
        strip_slash_def example_rt_def in_int64_def)

text \<open>
  Claim C3. A \<open>create_project\<close> request with content type "text/plain" fails with
  status 400 and returns the state it was given; and whenever \<open>create_project\<close> raises an
  \<open>HTTPException\<close>, it is that one and the state is the one it was given: no row in
  \<open>projects\<close>, no file in \<open>uploads\<close>.
\<close>

theorem create_project_rejected_unchanged:
  "(content_type image_file = Some ''text/plain'' \<longrightarrow>
      create_project rt title description image_file db request_base_url
        = (db, Inl (HTTPException 400 ''Invalid image format'')))
   \<and> (snd (create_project rt title description image_file db request_base_url)
         = Inl (HTTPException s d) \<longrightarrow>
      create_project rt title description image_file db request_base_url
        = (db, Inl (HTTPException 400 ''Invalid image format'')))"
proof (intro conjI impI)
  assume "content_type image_file = Some ''text/plain''"
  then have "case content_type image_file of None \<Rightarrow> True | Some ct \<Rightarrow> ct \<notin> allowed_types"
    by (simp add: allowed_types_def)
  then show "create_project rt title description image_file db request_base_url
        = (db, Inl (HTTPException 400 ''Invalid image format''))"
    by (rule create_project_reject)
next
  assume e: "snd (create_project rt title description image_file db request_base_url)
         = Inl (HTTPException s d)"
  show "create_project rt title description image_file db request_base_url
        = (db, Inl (HTTPException 400 ''Invalid image format''))"
  proof (cases "case content_type image_file of None \<Rightarrow> True | Some ct \<Rightarrow> ct \<notin> allowed_types")
    case True
    then show ?thesis by (rule create_project_reject)
  next
    case False
    from create_project_accept [OF False, of rt title description db request_base_url] e
    show ?thesis by auto
  qed
qed

theorem create_project_rejected_unchanged_witness:
  "content_type \<lparr>filename = Some ''notes.txt'', content_type = Some ''text/plain'', content = ''x''\<rparr>
       = Some ''text/plain''
   \<and> create_project example_rt ''T'' ''D''
          \<lparr>filename = Some ''notes.txt'', content_type = Some ''text/plain'', content = ''x''\<rparr>
          example_db ''http://host/''
       = (example_db, Inl (HTTPException 400 ''Invalid image format''))
   \<and> snd (create_project example_rt ''T'' ''D''
          \<lparr>filename = Some ''notes.txt'', content_type = None, content = ''x''\<rparr>
          example_db ''http://host/'')
       = Inl (HTTPException 400 ''Invalid image format'')
   \<and> create_project example_rt ''T'' ''D''
          \<lparr>filename = Some ''notes.txt'', content_type = None, content = ''x''\<rparr>
          example_db ''http://host/''
       = (example_db, Inl (HTTPException 400 ''Invalid image format''))"
proof -
  let ?txt = "\<lparr>filename = Some ''notes.txt'', content_type = Some ''text/plain'', content = ''x''\<rparr>"
  let ?none = "\<lparr>filename = Some ''notes.txt'', content_type = None, content = ''x''\<rparr>"
  have h1: "content_type ?txt = Some ''text/plain''"
    by simp
  have h2: "snd (create_project example_rt ''T'' ''D'' ?none example_db ''http://host/'')
       = Inl (HTTPException 400 ''Invalid image format'')"
    by (simp add: create_project_def)
  from h1 create_project_rejected_unchanged [of ?txt example_rt "''T''" "''D''" example_db "''http://host/''"]
  have e1: "create_project example_rt ''T'' ''D'' ?txt example_db ''http://host/''
       = (example_db, Inl (HTTPException 400 ''Invalid image format''))"
    by blast
  from h2 create_project_rejected_unchanged [of ?none example_rt "''T''" "''D''" example_db "''http://host/''"
         400 "''Invalid image format''"]
  have e2: "create_project example_rt ''T'' ''D'' ?none example_db ''http://host/''
       = (example_db, Inl (HTTPException 400 ''Invalid image format''))"
    by blast
  from h1 h2 e1 e2 show ?thesis by blast
qed

section \<open>Token lifetime\<close>






section \<open>Registering an admin\<close>

text \<open>
  Claim C5. In a state that holds an Admin with the username of the request,
  \<open>register_admin\<close> fails with status 400, detail "Admin already exists", and returns the
  state it was given: the \<open>admins\<close> table is the same, and \<open>authenticate_admin\<close> answers
  every username and password as before.
\<close>

theorem register_admin_conflict:
  assumes "\<exists>a \<in> set (admins db). admin_username a = create_username admin_data"
  shows "register_admin pwd admin_data db = (db, Inl (HTTPException 400 ''Admin already exists''))
         \<and> admins (fst (register_admin pwd admin_data db)) = admins db
         \<and> authenticate_admin pwd username password (fst (register_admin pwd admin_data db))
             = authenticate_admin pwd username password db"
proof -
  from assms have "List.find (\<lambda>a. admin_username a = create_username admin_data) (admins db) \<noteq> None"
    by (auto simp: find_None_iff)
  then have "register_admin pwd admin_data db = (db, Inl (HTTPException 400 ''Admin already exists''))"
    by (simp add: register_admin_def)
  then show ?thesis by simp
qed

theorem register_admin_conflict_witness:
  "example_admin \<in> set (admins example_db)
   \<and> admin_username example_admin = create_username \<lparr>create_username = ''admin'', create_password = ''other''\<rparr>
   \<and> register_admin example_pwd_context \<lparr>create_username = ''admin'', create_password = ''other''\<rparr> example_db
       = (example_db, Inl (HTTPException 400 ''Admin already exists''))
   \<and> authenticate_admin example_pwd_context ''admin'' ''secret''
        (fst (register_admin example_pwd_context \<lparr>create_username = ''admin'', create_password = ''other''\<rparr> example_db))
       = Some example_admin"
proof -
  have h: "\<exists>a \<in> set (admins example_db).
             admin_username a = create_username \<lparr>create_username = ''admin'', create_password = ''other''\<rparr>"
    by (simp add: example_db_def example_admin_def)
  have a: "authenticate_admin example_pwd_context ''admin'' ''secret'' example_db = Some example_admin"
    by (simp add: authenticate_admin_def example_db_def example_admin_def example_pwd_context_def)
  show ?thesis
    using register_admin_conflict [OF h, of example_pwd_context "''admin''" "''secret''"] a
    by (simp add: example_db_def example_admin_def)
qed

section \<open>Creating and reading back a project\<close>

lemma next_id_fresh: "next_id ids \<notin> set ids"
proof
  assume m: "next_id ids \<in> set ids"
  then have ne: "ids \<noteq> []" by auto
  from m have "next_id ids \<le> Max (set ids)" by simp
  with ne show False by (simp add: next_id_def)
qed







section \<open>Updating and deleting a project\<close>

lemma example_token_resolves:
  "get_current_admin example_rt 10000000 ''token:admin'' example_db = Inr example_admin"
  by (simp add: get_current_admin_def example_rt_def example_jwt_def example_db_def example_admin_def)

lemma example_no_project_7: "in_int64 7 \<and> (\<forall>p \<in> set (projects example_db). p_id p \<noteq> 7)"
  by (simp add: example_db_def in_int64_def)

lemma example_project_2: "in_int64 2 \<and> (\<exists>p \<in> set (projects example_db). p_id p = 2)"
  by (simp add: example_db_def in_int64_def)

lemma find_id_absent:
  "\<forall>p \<in> set xs. p_id p \<noteq> k \<Longrightarrow> List.find (\<lambda>p. p_id p = k) xs = None"
  by (simp add: find_None_iff)

lemma find_id_present:
  "\<exists>p \<in> set xs. p_id p = k \<Longrightarrow> \<exists>old. List.find (\<lambda>p. p_id p = k) xs = Some old \<and> p_id old = k \<and> old \<in> set xs"
  by (induction xs) auto

lemma overwrite_all_fields:
  "(old :: Project)\<lparr>p_title := t, p_description := d, p_image_url := u\<rparr>
     = \<lparr>p_id = p_id old, p_title = t, p_description = d, p_image_url = u\<rparr>"
  by (cases old) simp

lemma update_project_overflow:
  "\<not> in_int64 project_id \<Longrightarrow>
   update_project project_id project db admin = (db, Inl (Unhandled ''OverflowError''))"
  by (simp add: update_project_def)

lemma update_project_absent:
  "in_int64 project_id \<Longrightarrow> \<forall>p \<in> set (projects db). p_id p \<noteq> project_id \<Longrightarrow>
   update_project project_id project db admin = (db, Inl (HTTPException 404 ''Project not found''))"
  by (simp add: update_project_def find_id_absent)

lemma update_project_present:
  assumes "in_int64 project_id" and "\<exists>p \<in> set (projects db). p_id p = project_id"
  shows "update_project project_id project db admin
     = (db\<lparr>projects := map (\<lambda>p. if p_id p = project_id
                                  then \<lparr>p_id = project_id, p_title = schema_title project,
                                        p_description = schema_description project,
                                        p_image_url = schema_image_url project\<rparr>
                                  else p) (projects db)\<rparr>,
        Inr \<lparr>p_id = project_id, p_title = schema_title project,
             p_description = schema_description project,
             p_image_url = schema_image_url project\<rparr>)"
proof -
  from find_id_present [OF assms(2)] obtain old where
    f: "List.find (\<lambda>p. p_id p = project_id) (projects db) = Some old" and i: "p_id old = project_id"
    by blast
  show ?thesis
    by (simp add: update_project_def assms(1) f Let_def overwrite_all_fields i)
qed

lemma delete_project_overflow:
  "\<not> in_int64 project_id \<Longrightarrow>
   delete_project project_id db admin = (db, Inl (Unhandled ''OverflowError''))"
  by (simp add: delete_project_def)

lemma delete_project_absent:
  "in_int64 project_id \<Longrightarrow> \<forall>p \<in> set (projects db). p_id p \<noteq> project_id \<Longrightarrow>
   delete_project project_id db admin = (db, Inl (HTTPException 404 ''Project not found''))"
  by (simp add: delete_project_def find_id_absent)

lemma delete_project_present:
  assumes "in_int64 project_id" and "\<exists>p \<in> set (projects db). p_id p = project_id"
  shows "delete_project project_id db admin
     = (db\<lparr>projects := filter (\<lambda>p. p_id p \<noteq> project_id) (projects db)\<rparr>,
        Inr ''Project deleted successfully'')"
proof -
  from find_id_present [OF assms(2)] obtain old where
    f: "List.find (\<lambda>p. p_id p = project_id) (projects db) = Some old"
    by blast
  show ?thesis
    by (simp add: delete_project_def assms(1) f)
qed

lemma filter_distinct_split:
  assumes "distinct (map f xs)" and "x \<in> set xs"
  shows "\<exists>ys zs. xs = ys @ x # zs \<and> filter (\<lambda>p. f p \<noteq> f x) xs = ys @ zs"
proof -
  from assms(2) obtain ys zs where xs: "xs = ys @ x # zs"
    by (auto dest: split_list)
  with assms(1) have "f x \<notin> f ` set ys" and "f x \<notin> f ` set zs" by auto
  then have "filter (\<lambda>p. f p \<noteq> f x) ys = ys" and "filter (\<lambda>p. f p \<noteq> f x) zs = zs"
    by (simp_all add: filter_id_conv image_iff) metis+
  with xs show ?thesis by auto
qed

text \<open>
  Claim C7. \<open>update_project\<close> in full. On an id outside the 64-bit range, such as
  9223372036854775808, which no Project has, the lookup raises \<open>OverflowError\<close> and the
  handler does not reach its 404. On an id in the range that no row of \<open>projects\<close> has,
  it fails with status 404, detail "Project not found", and the state is the one it was
  given. On an id that a row has, the new state is the old one with that row replaced by
  the record of the id and the request's title, description and image URL, every other
  row in its place, and that record is returned. With a token that resolves to an Admin,
  the route is this handler.
\<close>

theorem update_project_cases:
  "update_project 9223372036854775808 project db admin = (db, Inl (Unhandled ''OverflowError''))
   \<and> (\<not> in_int64 project_id \<longrightarrow>
        update_project project_id project db admin = (db, Inl (Unhandled ''OverflowError'')))
   \<and> (in_int64 project_id \<and> (\<forall>p \<in> set (projects db). p_id p \<noteq> project_id) \<longrightarrow>
        update_project project_id project db admin
          = (db, Inl (HTTPException 404 ''Project not found'')))
   \<and> (in_int64 project_id \<and> (\<exists>p \<in> set (projects db). p_id p = project_id) \<longrightarrow>
        update_project project_id project db admin
          = (db\<lparr>projects := map (\<lambda>p. if p_id p = project_id
                                       then \<lparr>p_id = project_id, p_title = schema_title project,
                                             p_description = schema_description project,
                                             p_image_url = schema_image_url project\<rparr>
                                       else p) (projects db)\<rparr>,
             Inr \<lparr>p_id = project_id, p_title = schema_title project,
                  p_description = schema_description project,
                  p_image_url = schema_image_url project\<rparr>))
   \<and> (get_current_admin rt now tok db = Inr admin \<longrightarrow>
        handle rt now (UpdateProject tok project_id project) db
          = lift_result ProjectOut (update_project project_id project db admin))"
proof (intro conjI impI)
  have "\<not> in_int64 9223372036854775808" by (simp add: in_int64_def)
  then show "update_project 9223372036854775808 project db admin = (db, Inl (Unhandled ''OverflowError''))"
    by (rule update_project_overflow)
next
  assume "\<not> in_int64 project_id"
  then show "update_project project_id project db admin = (db, Inl (Unhandled ''OverflowError''))"
    by (rule update_project_overflow)
next
  assume "in_int64 project_id \<and> (\<forall>p \<in> set (projects db). p_id p \<noteq> project_id)"
  then show "update_project project_id project db admin
          = (db, Inl (HTTPException 404 ''Project not found''))"
    by (simp add: update_project_absent)
next
  assume "in_int64 project_id \<and> (\<exists>p \<in> set (projects db). p_id p = project_id)"
  then have i: "in_int64 project_id" and e: "\<exists>p \<in> set (projects db). p_id p = project_id"
    by simp_all
  from update_project_present [OF i e]
  show "update_project project_id project db admin
          = (db\<lparr>projects := map (\<lambda>p. if p_id p = project_id
                                       then \<lparr>p_id = project_id, p_title = schema_title project,
                                             p_description = schema_description project,
                                             p_image_url = schema_image_url project\<rparr>
                                       else p) (projects db)\<rparr>,
             Inr \<lparr>p_id = project_id, p_title = schema_title project,
                  p_description = schema_description project,
                  p_image_url = schema_image_url project\<rparr>)" .
next
  assume "get_current_admin rt now tok db = Inr admin"
  then show "handle rt now (UpdateProject tok project_id project) db
          = lift_result ProjectOut (update_project project_id project db admin)"
    by simp
qed

theorem update_project_cases_witness:
  "\<not> in_int64 9223372036854775808
   \<and> update_project 9223372036854775808 example_body example_db example_admin
       = (example_db, Inl (Unhandled ''OverflowError''))
   \<and> get_current_admin example_rt 10000000 ''token:admin'' example_db = Inr example_admin
   \<and> handle example_rt 10000000 (UpdateProject ''token:admin'' 9223372036854775808 example_body) example_db
       = (example_db, Inl (Unhandled ''OverflowError''))
   \<and> in_int64 7 \<and> map p_id (projects example_db) = [1, 2]
   \<and> update_project 7 example_body example_db example_admin
       = (example_db, Inl (HTTPException 404 ''Project not found''))
   \<and> in_int64 2
   \<and> update_project 2 example_body example_db example_admin
       = (example_db\<lparr>projects := [\<lparr>p_id = 1, p_title = ''One'', p_description = ''first'',
                                     p_image_url = ''http://host/uploads/one.png''\<rparr>,
                                    \<lparr>p_id = 2, p_title = ''New'', p_description = ''changed'',
                                     p_image_url = ''http://host/uploads/new.png''\<rparr>]\<rparr>,
          Inr \<lparr>p_id = 2, p_title = ''New'', p_description = ''changed'',
               p_image_url = ''http://host/uploads/new.png''\<rparr>)"
proof -
  have big: "\<not> in_int64 9223372036854775808" by (simp add: in_int64_def)
  have ids: "map p_id (projects example_db) = [1, 2]" by (simp add: example_db_def)
  note over = update_project_cases [of example_body example_db example_admin 9223372036854775808
                example_rt 10000000 "''token:admin''"]
  note absent = update_project_cases [of example_body example_db example_admin 7]
  note present = update_project_cases [of example_body example_db example_admin 2]
  from over big have o: "update_project 9223372036854775808 example_body example_db example_admin
       = (example_db, Inl (Unhandled ''OverflowError''))"
    by blast
  from over example_token_resolves
  have "handle example_rt 10000000 (UpdateProject ''token:admin'' 9223372036854775808 example_body) example_db
       = lift_result ProjectOut (update_project 9223372036854775808 example_body example_db example_admin)"
    by blast
  with o have h: "handle example_rt 10000000
        (UpdateProject ''token:admin'' 9223372036854775808 example_body) example_db
       = (example_db, Inl (Unhandled ''OverflowError''))"
    by simp
  from absent example_no_project_7
  have a: "update_project 7 example_body example_db example_admin
       = (example_db, Inl (HTTPException 404 ''Project not found''))"
    by blast
  from present example_project_2
  have "update_project 2 example_body example_db example_admin
       = (example_db\<lparr>projects := map (\<lambda>p. if p_id p = 2
                                       then \<lparr>p_id = 2, p_title = schema_title example_body,
                                             p_description = schema_description example_body,
                                             p_image_url = schema_image_url example_body\<rparr>
                                       else p) (projects example_db)\<rparr>,
             Inr \<lparr>p_id = 2, p_title = schema_title example_body,
                  p_description = schema_description example_body,
                  p_image_url = schema_image_url example_body\<rparr>)"
    by blast
  then have p: "update_project 2 example_body example_db example_admin
       = (example_db\<lparr>projects := [\<lparr>p_id = 1, p_title = ''One'', p_description = ''first'',
                                     p_image_url = ''http://host/uploads/one.png''\<rparr>,
                                    \<lparr>p_id = 2, p_title = ''New'', p_description = ''changed'',
                                     p_image_url = ''http://host/uploads/new.png''\<rparr>]\<rparr>,
          Inr \<lparr>p_id = 2, p_title = ''New'', p_description = ''changed'',
               p_image_url = ''http://host/uploads/new.png''\<rparr>)"
    by (simp add: example_body_def example_db_def)
  from big o example_token_resolves h example_no_project_7 ids a example_project_2 p
  show ?thesis by blast
qed

text \<open>
  Claim C8. \<open>delete_project\<close> in full. On an id outside the 64-bit range, such as
  9223372036854775808, which is absent from the store, the lookup raises
  \<open>OverflowError\<close> and the handler does not reach its 404. On an id in the range that no
  row of \<open>projects\<close> has, it fails with status 404, detail "Project not found", and
  returns the state it was given. On an id that a row has, it succeeds, the new state is
  the old one without the rows of that id, and no record returned by \<open>get_projects\<close> has
  the id. With a token that resolves to an Admin, the route is this handler.
\<close>

theorem delete_project_cases:
  "delete_project 9223372036854775808 db admin = (db, Inl (Unhandled ''OverflowError''))
   \<and> (\<not> in_int64 project_id \<longrightarrow>
        delete_project project_id db admin = (db, Inl (Unhandled ''OverflowError'')))
   \<and> (in_int64 project_id \<and> (\<forall>p \<in> set (projects db). p_id p \<noteq> project_id) \<longrightarrow>
        delete_project project_id db admin
          = (db, Inl (HTTPException 404 ''Project not found'')))
   \<and> (in_int64 project_id \<and> (\<exists>p \<in> set (projects db). p_id p = project_id) \<longrightarrow>
        delete_project project_id db admin
          = (db\<lparr>projects := filter (\<lambda>p. p_id p \<noteq> project_id) (projects db)\<rparr>,
             Inr ''Project deleted successfully'')
        \<and> (\<forall>p \<in> set (get_projects (fst (delete_project project_id db admin))). p_id p \<noteq> project_id))
   \<and> (get_current_admin rt now tok db = Inr admin \<longrightarrow>
        handle rt now (DeleteProject tok project_id) db
          = lift_result Message (delete_project project_id db admin))"
proof (intro conjI impI)
  have "\<not> in_int64 9223372036854775808" by (simp add: in_int64_def)
  then show "delete_project 9223372036854775808 db admin = (db, Inl (Unhandled ''OverflowError''))"
    by (rule delete_project_overflow)
next
  assume "\<not> in_int64 project_id"
  then show "delete_project project_id db admin = (db, Inl (Unhandled ''OverflowError''))"
    by (rule delete_project_overflow)
next
  assume "in_int64 project_id \<and> (\<forall>p \<in> set (projects db). p_id p \<noteq> project_id)"
  then show "delete_project project_id db admin
          = (db, Inl (HTTPException 404 ''Project not found''))"
    by (simp add: delete_project_absent)
next
  assume h: "in_int64 project_id \<and> (\<exists>p \<in> set (projects db). p_id p = project_id)"
  then have i: "in_int64 project_id" and e: "\<exists>p \<in> set (projects db). p_id p = project_id"
    by simp_all
  note d = delete_project_present [OF i e, of admin]
  from d show "delete_project project_id db admin
          = (db\<lparr>projects := filter (\<lambda>p. p_id p \<noteq> project_id) (projects db)\<rparr>,
             Inr ''Project deleted successfully'')" .
  from d show "\<forall>p \<in> set (get_projects (fst (delete_project project_id db admin))). p_id p \<noteq> project_id"
    by (simp add: get_projects_def)
next
  assume "get_current_admin rt now tok db = Inr admin"
  then show "handle rt now (DeleteProject tok project_id) db
          = lift_result Message (delete_project project_id db admin)"
    by simp
qed

theorem delete_project_cases_witness:
  "\<not> in_int64 9223372036854775808
   \<and> delete_project 9223372036854775808 example_db example_admin
       = (example_db, Inl (Unhandled ''OverflowError''))
   \<and> get_current_admin example_rt 10000000 ''token:admin'' example_db = Inr example_admin
   \<and> handle example_rt 10000000 (DeleteProject ''token:admin'' 9223372036854775808) example_db
       = (example_db, Inl (Unhandled ''OverflowError''))
   \<and> in_int64 7 \<and> map p_id (projects example_db) = [1, 2]
   \<and> delete_project 7 example_db example_admin
       = (example_db, Inl (HTTPException 404 ''Project not found''))
   \<and> in_int64 2
   \<and> delete_project 2 example_db example_admin
       = (example_db\<lparr>projects := [\<lparr>p_id = 1, p_title = ''One'', p_description = ''first'',
                                     p_image_url = ''http://host/uploads/one.png''\<rparr>]\<rparr>,
          Inr ''Project deleted successfully'')
   \<and> map p_id (get_projects (fst (delete_project 2 example_db example_admin))) = [1]"
proof -
  have big: "\<not> in_int64 9223372036854775808" by (simp add: in_int64_def)
  have ids: "map p_id (projects example_db) = [1, 2]" by (simp add: example_db_def)
  note over = delete_project_cases [of example_db example_admin 9223372036854775808
                example_rt 10000000 "''token:admin''"]
  note absent = delete_project_cases [of example_db example_admin 7]
  note present = delete_project_cases [of example_db example_admin 2]
  from over big have o: "delete_project 9223372036854775808 example_db example_admin
       = (example_db, Inl (Unhandled ''OverflowError''))"
    by blast
  from over example_token_resolves
  have "handle example_rt 10000000 (DeleteProject ''token:admin'' 9223372036854775808) example_db
       = lift_result Message (delete_project 9223372036854775808 example_db example_admin)"
    by blast
  with o have h: "handle example_rt 10000000 (DeleteProject ''token:admin'' 9223372036854775808) example_db
       = (example_db, Inl (Unhandled ''OverflowError''))"
    by simp
  from absent example_no_project_7
  have a: "delete_project 7 example_db example_admin
       = (example_db, Inl (HTTPException 404 ''Project not found''))"
    by blast
  from present example_project_2
  have "delete_project 2 example_db example_admin
       = (example_db\<lparr>projects := filter (\<lambda>p. p_id p \<noteq> 2) (projects example_db)\<rparr>,
          Inr ''Project deleted successfully'')"
    by blast
  then have p: "delete_project 2 example_db example_admin
       = (example_db\<lparr>projects := [\<lparr>p_id = 1, p_title = ''One'', p_description = ''first'',
                                     p_image_url = ''http://host/uploads/one.png''\<rparr>]\<rparr>,
          Inr ''Project deleted successfully'')"
    by (simp add: example_db_def)
  then have l: "map p_id (get_projects (fst (delete_project 2 example_db example_admin))) = [1]"
    by (simp add: get_projects_def)
  from big o example_token_resolves h example_no_project_7 ids a example_project_2 p l
  show ?thesis by blast
qed

text \<open>
  Claim C10. A successful \<open>delete_project\<close> leaves in \<open>projects\<close> exactly the rows
  with another id, in their order and unchanged, and leaves \<open>contact_messages\<close>,
  \<open>admins\<close> and the upload store as they were; where ids are distinct (the primary key),
  it is one row that is removed. A successful \<open>update_project\<close> changes the title,
  description and image URL of the row with the id and nothing else: every other row, the
  ids of all rows, and the other tables are as they were.
\<close>

theorem delete_update_frame:
  "(delete_project project_id db admin = (db1, Inr m) \<longrightarrow>
      projects db1 = filter (\<lambda>p. p_id p \<noteq> project_id) (projects db)
      \<and> contact_messages db1 = contact_messages db
      \<and> admins db1 = admins db
      \<and> uploads db1 = uploads db
      \<and> (distinct (map p_id (projects db)) \<longrightarrow>
           (\<exists>ys old zs. projects db = ys @ old # zs \<and> p_id old = project_id \<and> projects db1 = ys @ zs)))
   \<and> (update_project project_id project db admin = (db2, Inr r) \<longrightarrow>
      projects db2 = map (\<lambda>p. if p_id p = project_id
                               then p\<lparr>p_title := schema_title project,
                                      p_description := schema_description project,
                                      p_image_url := schema_image_url project\<rparr>
                               else p) (projects db)
      \<and> map p_id (projects db2) = map p_id (projects db)
      \<and> contact_messages db2 = contact_messages db
      \<and> admins db2 = admins db
      \<and> uploads db2 = uploads db)"
proof (intro conjI impI)
  assume d: "delete_project project_id db admin = (db1, Inr m)"
  then obtain old where f: "List.find (\<lambda>p. p_id p = project_id) (projects db) = Some old"
    and r: "in_int64 project_id"
    by (auto simp: delete_project_def split: option.splits if_splits)
  with d have db1: "db1 = db\<lparr>projects := filter (\<lambda>p. p_id p \<noteq> project_id) (projects db)\<rparr>"
    by (simp add: delete_project_def)
  from db1 show "projects db1 = filter (\<lambda>p. p_id p \<noteq> project_id) (projects db)"
    and "contact_messages db1 = contact_messages db" and "admins db1 = admins db"
    and "uploads db1 = uploads db"
    by simp_all
  assume dist: "distinct (map p_id (projects db))"
  from f have old: "old \<in> set (projects db)" and i: "p_id old = project_id"
    by (auto simp: find_Some_iff)
  from filter_distinct_split [OF dist old] i db1
  show "\<exists>ys old zs. projects db = ys @ old # zs \<and> p_id old = project_id \<and> projects db1 = ys @ zs"
    by auto
next
  assume u: "update_project project_id project db admin = (db2, Inr r)"
  then obtain old where f: "List.find (\<lambda>p. p_id p = project_id) (projects db) = Some old"
    and rg: "in_int64 project_id"
    by (auto simp: update_project_def split: option.splits if_splits)
  from f have i: "p_id old = project_id" by (auto simp: find_Some_iff)
  from u f rg have db2: "db2 = db\<lparr>projects := map (\<lambda>p. if p_id p = project_id
        then old\<lparr>p_title := schema_title project, p_description := schema_description project,
                 p_image_url := schema_image_url project\<rparr> else p) (projects db)\<rparr>"
    by (simp add: update_project_def Let_def)
  have same: "(\<lambda>p. if p_id p = project_id
        then old\<lparr>p_title := schema_title project, p_description := schema_description project,
                 p_image_url := schema_image_url project\<rparr> else p)
     = (\<lambda>p. if p_id p = project_id
        then p\<lparr>p_title := schema_title project, p_description := schema_description project,
                 p_image_url := schema_image_url project\<rparr> else p)"
    by (rule ext) (simp add: overwrite_all_fields i)
  from db2 same show p2: "projects db2 = map (\<lambda>p. if p_id p = project_id
                               then p\<lparr>p_title := schema_title project,
                                      p_description := schema_description project,
                                      p_image_url := schema_image_url project\<rparr>
                               else p) (projects db)"
    by simp
  show "map p_id (projects db2) = map p_id (projects db)"
    unfolding p2 by (induction "projects db") auto
  from db2 show "contact_messages db2 = contact_messages db" and "admins db2 = admins db"
    and "uploads db2 = uploads db"
    by simp_all
qed

theorem delete_update_frame_witness:
  "delete_project 2 example_db example_admin
     = (example_db\<lparr>projects := [\<lparr>p_id = 1, p_title = ''One'', p_description = ''first'',
                                   p_image_url = ''http://host/uploads/one.png''\<rparr>]\<rparr>,
        Inr ''Project deleted successfully'')
   \<and> distinct (map p_id (projects example_db))
   \<and> update_project 2 example_body example_db example_admin
     = (example_db\<lparr>projects := [\<lparr>p_id = 1, p_title = ''One'', p_description = ''first'',
                                   p_image_url = ''http://host/uploads/one.png''\<rparr>,
                                  \<lparr>p_id = 2, p_title = ''New'', p_description = ''changed'',
                                   p_image_url = ''http://host/uploads/new.png''\<rparr>]\<rparr>,
        Inr \<lparr>p_id = 2, p_title = ''New'', p_description = ''changed'',
             p_image_url = ''http://host/uploads/new.png''\<rparr>)
   \<and> contact_messages (example_db\<lparr>projects := [\<lparr>p_id = 1, p_title = ''One'', p_description = ''first'',
                                   p_image_url = ''http://host/uploads/one.png''\<rparr>]\<rparr>)
       = contact_messages example_db
   \<and> admins (example_db\<lparr>projects := [\<lparr>p_id = 1, p_title = ''One'', p_description = ''first'',
                                   p_image_url = ''http://host/uploads/one.png''\<rparr>]\<rparr>)
       = admins example_db
   \<and> map p_id (projects (example_db\<lparr>projects := [\<lparr>p_id = 1, p_title = ''One'', p_description = ''first'',
                                   p_image_url = ''http://host/uploads/one.png''\<rparr>,
                                  \<lparr>p_id = 2, p_title = ''New'', p_description = ''changed'',
                                   p_image_url = ''http://host/uploads/new.png''\<rparr>]\<rparr>))
       = map p_id (projects example_db)"
proof -
  let ?p1 = "\<lparr>p_id = 1, p_title = ''One'', p_description = ''first'',
              p_image_url = ''http://host/uploads/one.png''\<rparr>"
  let ?n2 = "\<lparr>p_id = 2, p_title = ''New'', p_description = ''changed'',
              p_image_url = ''http://host/uploads/new.png''\<rparr>"
  have d: "delete_project 2 example_db example_admin
     = (example_db\<lparr>projects := [?p1]\<rparr>, Inr ''Project deleted successfully'')"
    by (simp add: delete_project_def example_db_def in_int64_def)
  have u: "update_project 2 example_body example_db example_admin
     = (example_db\<lparr>projects := [?p1, ?n2]\<rparr>, Inr ?n2)"
    by (simp add: update_project_def example_db_def example_body_def Let_def in_int64_def)
  have dist: "distinct (map p_id (projects example_db))"
    by (simp add: example_db_def)
  note t = delete_update_frame [of 2 example_db example_admin "example_db\<lparr>projects := [?p1]\<rparr>"
             "''Project deleted successfully''" example_body "example_db\<lparr>projects := [?p1, ?n2]\<rparr>" ?n2]
  from t d have f1: "contact_messages (example_db\<lparr>projects := [?p1]\<rparr>) = contact_messages example_db
      \<and> admins (example_db\<lparr>projects := [?p1]\<rparr>) = admins example_db"
    by blast
  from t u have f2: "map p_id (projects (example_db\<lparr>projects := [?p1, ?n2]\<rparr>))
      = map p_id (projects example_db)"
    by blast
  from d u dist f1 f2 show ?thesis by blast
qed

section \<open>Contact messages\<close>

text \<open>
  \<open>save_message\<close> appends one row whose timestamp is the server's clock at the request:
  the request body \<open>ContactForm\<close> is its three fields name, email and message, and none
  of them reaches the timestamp. (Claim C9 adds that a stored row is never changed or
  removed. No handler writes to \<open>contact_messages\<close> but this one; yet
  \<open>create_project\<close> opens the file name of an upload as it is sent, and a name that leads
  to the database file overwrites the table with it. That write is outside this state, so
  no theorem on the rows of \<open>contact_messages\<close> is stated.)
\<close>

lemma save_message_server_timestamp:
  "save_message now contact db
     = (db\<lparr>contact_messages := contact_messages db @
           [\<lparr>cm_id = next_id (map cm_id (contact_messages db)), cm_name = form_name contact,
             cm_email = form_email contact, cm_message = form_message contact,
             cm_timestamp = now\<rparr>]\<rparr>,
        ''Message received'')"
  by (simp add: save_message_def Let_def)

section \<open>The primary key of the projects table\<close>

text \<open>
  No request breaks the primary key: when the ids of \<open>projects\<close> are distinct before a
  request, they are distinct after it.
\<close>

lemma fst_lift_result: "fst (lift_result f x) = fst x"
  by (cases x, cases "snd x") auto

lemma create_project_projects:
  "projects (fst (create_project rt title description image_file db request_base_url)) = projects db
   \<or> (\<exists>p. p_id p = next_id (map p_id (projects db))
          \<and> projects (fst (create_project rt title description image_file db request_base_url))
              = projects db @ [p])"
  by (simp add: create_project_def Let_def split: option.splits)

lemma update_project_ids:
  "map p_id (projects (fst (update_project project_id project db admin))) = map p_id (projects db)"
proof (cases "in_int64 project_id \<and> (\<exists>p \<in> set (projects db). p_id p = project_id)")
  case True
  then have i: "in_int64 project_id" and e: "\<exists>p \<in> set (projects db). p_id p = project_id"
    by simp_all
  show ?thesis
    unfolding update_project_present [OF i e] by (induction "projects db") auto
next
  case False
  then show ?thesis
    by (cases "in_int64 project_id") (simp_all add: update_project_absent update_project_overflow)
qed

lemma delete_project_projects:
  "projects (fst (delete_project project_id db admin)) = projects db
   \<or> projects (fst (delete_project project_id db admin))
       = filter (\<lambda>p. p_id p \<noteq> project_id) (projects db)"
  by (simp add: delete_project_def split: option.splits)

lemma handle_keeps_primary_key:
  assumes "distinct (map p_id (projects db))"
  shows "distinct (map p_id (projects (fst (handle rt now req db))))"
proof (cases req)
  case (SaveMessage contact)
  with assms show ?thesis by (simp add: save_message_def Let_def)
next
  case (GetMessages tok)
  with assms show ?thesis by (simp split: sum.splits)
next
  case (RegisterAdmin admin_data)
  with assms show ?thesis by (simp add: fst_lift_result register_admin_def Let_def)
next
  case (CreateProject title description image_file request_base_url)
  from create_project_projects [of rt title description image_file db request_base_url]
  have "distinct (map p_id (projects (fst (create_project rt title description image_file db request_base_url))))"
  proof
    assume "projects (fst (create_project rt title description image_file db request_base_url)) = projects db"
    with assms show ?thesis by simp
  next
    assume "\<exists>p. p_id p = next_id (map p_id (projects db))
          \<and> projects (fst (create_project rt title description image_file db request_base_url))
              = projects db @ [p]"
    then obtain p where i: "p_id p = next_id (map p_id (projects db))"
      and a: "projects (fst (create_project rt title description image_file db request_base_url))
              = projects db @ [p]"
      by blast
    from i next_id_fresh [of "map p_id (projects db)"] have "p_id p \<notin> set (map p_id (projects db))"
      by simp
    with assms a show ?thesis by simp
  qed
  with CreateProject show ?thesis by (simp add: fst_lift_result)
next
  case (UpdateProject tok project_id project)
  with assms show ?thesis
    by (simp add: fst_lift_result update_project_ids split: sum.splits)
next
  case (DeleteProject tok project_id)
  have "distinct (map p_id (projects (fst (delete_project project_id db admin))))" for admin
    using delete_project_projects [of project_id db admin] assms
    by (auto simp: distinct_map_filter)
  with DeleteProject assms show ?thesis
    by (simp add: fst_lift_result split: sum.splits)
qed (use assms in \<open>simp_all add: fst_lift_result\<close>)

end
